theory Spec2Isabelle
  imports Main
begin

section \<open>The curation plugin: data\<close>

text \<open>
  The module \<^verbatim>\<open>plugins/curation/server/__init__.py\<close> attaches a small review workflow
  to a folder document. The folder is a dictionary; the sub-document under the key
  \<^verbatim>\<open>'curation'\<close> is a dictionary too. A key of a Python dictionary may be missing, so every
  key of the curation dictionary is an \<open>option\<close>: \<open>None\<close> is "the key is missing"
  (for the three user-id keys also "the value is None", which the code never tells apart:
  it reads them with \<^verbatim>\<open>.get\<close> and tests them with \<^verbatim>\<open>not userId\<close>).
\<close>

type_synonym uid = nat
type_synonym timestamp = nat

text \<open>The current user: the keys \<^verbatim>\<open>'_id'\<close>, \<^verbatim>\<open>'login'\<close> and \<^verbatim>\<open>'admin'\<close> of the user document.
  \<^verbatim>\<open>getCurrentUser()\<close> returns \<^verbatim>\<open>None\<close> for an anonymous request (both routes are
  \<^verbatim>\<open>@access.public\<close>), so the functions below take a \<open>user option\<close>.\<close>

record user =
  user_id :: uid
  login :: string
  admin :: bool

text \<open>One element of the timeline, as \<^verbatim>\<open>_addTimeline\<close> builds it. The keys \<^verbatim>\<open>text\<close>,
  \<^verbatim>\<open>enabled\<close> and \<^verbatim>\<open>status\<close> of the source are \<open>entry_text\<close>, \<open>newEnabled\<close> and
  \<open>newStatus\<close> here.\<close>

record entry =
  userId :: uid
  userLogin :: string
  entry_text :: string
  oldEnabled :: bool
  oldStatus :: string
  newEnabled :: bool
  newStatus :: string
  timestamp :: timestamp

record curation =
  enabled :: "bool option"
  status :: "string option"
  timeline :: "entry list option"
  enableUserId :: "uid option"
  requestUserId :: "uid option"
  reviewUserId :: "uid option"

text \<open>An element of \<^verbatim>\<open>folder['access']['users']\<close> or \<^verbatim>\<open>folder['access']['groups']\<close>.\<close>

record access_doc =
  doc_id :: uid
  level :: int

record folder =
  name :: string
  public :: bool
  users :: "access_doc list"
  groups :: "access_doc list"
  curation :: "curation option"

text \<open>The request parameters. \<open>p_enabled = None\<close> is \<^verbatim>\<open>ENABLED not in params\<close>; \<open>Some b\<close>
  carries the value that \<^verbatim>\<open>boolParam\<close> parses. \<open>p_status\<close> is \<^verbatim>\<open>params[STATUS]\<close>.\<close>

record params =
  p_enabled :: "bool option"
  p_status :: "string option"

datatype exn = AccessException | AttributeError | KeyError

text \<open>A call of \<^verbatim>\<open>mail_utils.sendEmail\<close>: the user whose address is looked up, the
  address found, the subject and the template that is rendered.\<close>

record mail =
  recipient :: uid
  address :: string
  subject :: string
  template :: string

text \<open>What a call of \<^verbatim>\<open>setCuration\<close> that returns has done: the folder document handed to
  \<^verbatim>\<open>save\<close> (the value returned is its \<^verbatim>\<open>'curation'\<close> entry) and the mails sent, in order.\<close>

record outcome =
  saved :: folder
  mails :: "mail list"

text \<open>The mutable objects while \<^verbatim>\<open>setCuration\<close> runs. \<open>st_curation\<close> is the dictionary
  that both the local \<^verbatim>\<open>curation\<close> and \<^verbatim>\<open>folder[CURATION]\<close> refer to; \<open>st_folder\<close> holds
  the other keys of the folder. \<open>st_ticks\<close> counts the readings of the clock.\<close>

record state =
  st_folder :: folder
  st_curation :: curation
  st_mails :: "mail list"
  st_ticks :: nat

section \<open>Constants\<close>

definition CONSTRUCTION :: string where "CONSTRUCTION = ''construction''"
definition REQUESTED :: string where "REQUESTED = ''requested''"
definition APPROVED :: string where "APPROVED = ''approved''"

text \<open>\<^verbatim>\<open>DEFAULTS\<close> has the two keys \<^verbatim>\<open>enabled\<close> and \<^verbatim>\<open>status\<close> only.\<close>

definition DEFAULTS :: curation where
  "DEFAULTS = \<lparr>enabled = Some False, status = Some CONSTRUCTION, timeline = None,
     enableUserId = None, requestUserId = None, reviewUserId = None\<rparr>"

text \<open>The empty dictionary \<^verbatim>\<open>{}\<close>.\<close>

definition empty_dict :: curation where
  "empty_dict = \<lparr>enabled = None, status = None, timeline = None,
     enableUserId = None, requestUserId = None, reviewUserId = None\<rparr>"

text \<open>\<^verbatim>\<open>AccessType.READ\<close> and \<^verbatim>\<open>AccessType.WRITE\<close> of \<^verbatim>\<open>girder.constants\<close>.\<close>

definition AccessType_READ :: int where "AccessType_READ = 0"
definition AccessType_WRITE :: int where "AccessType_WRITE = 1"

section \<open>Helpers\<close>

definition bind_exn :: "exn + 'a \<Rightarrow> ('a \<Rightarrow> exn + 'b) \<Rightarrow> exn + 'b" where
  "bind_exn r k = (case r of Inl e \<Rightarrow> Inl e | Inr x \<Rightarrow> k x)"

text \<open>A statement \<^verbatim>\<open>if b: body\<close>.\<close>

definition when_exn :: "bool \<Rightarrow> ('s \<Rightarrow> exn + 's) \<Rightarrow> 's \<Rightarrow> exn + 's" where
  "when_exn b body st = (if b then body st else Inr st)"

text \<open>\<^verbatim>\<open>self.requireAdmin(user)\<close> of girder's \<^verbatim>\<open>Resource\<close>: raises \<^verbatim>\<open>AccessException\<close>
  unless there is a user and its \<^verbatim>\<open>admin\<close> flag is set.\<close>

definition requireAdmin :: "user option \<Rightarrow> exn + unit" where
  "requireAdmin usr =
     (case usr of None \<Rightarrow> Inl AccessException
      | Some u \<Rightarrow> if admin u then Inr () else Inl AccessException)"

text \<open>\<^verbatim>\<open>user.get('_id')\<close>: an attribute of \<^verbatim>\<open>None\<close> when nobody is logged in.\<close>

definition get_id :: "user option \<Rightarrow> exn + uid" where
  "get_id usr = (case usr of None \<Rightarrow> Inl AttributeError | Some u \<Rightarrow> Inr (user_id u))"

text \<open>\<^verbatim>\<open>curation.get(ENABLED, False)\<close>.\<close>

definition get_enabled :: "curation \<Rightarrow> bool" where
  "get_enabled c = (case enabled c of None \<Rightarrow> False | Some b \<Rightarrow> b)"

text \<open>\<^verbatim>\<open>base.update(upd)\<close>: every key present in \<open>upd\<close> replaces the one of \<open>base\<close>.\<close>

definition override :: "'a option \<Rightarrow> 'a option \<Rightarrow> 'a option" where
  "override b u = (case u of None \<Rightarrow> b | Some v \<Rightarrow> Some v)"

definition dict_update :: "curation \<Rightarrow> curation \<Rightarrow> curation" where
  "dict_update base upd =
     \<lparr>enabled = override (enabled base) (enabled upd),
      status = override (status base) (status upd),
      timeline = override (timeline base) (timeline upd),
      enableUserId = override (enableUserId base) (enableUserId upd),
      requestUserId = override (requestUserId base) (requestUserId upd),
      reviewUserId = override (reviewUserId base) (reviewUserId upd)\<rparr>"

section \<open>The read path\<close>

definition getCuration :: "folder \<Rightarrow> curation" where
  "getCuration f =
     (let result = DEFAULTS;
          result = result\<lparr>timeline := Some []\<rparr>
      in dict_update result (case curation f of None \<Rightarrow> empty_dict | Some c \<Rightarrow> c))"

section \<open>The write path\<close>

definition downgrade :: "access_doc \<Rightarrow> access_doc" where
  "downgrade doc =
     (if level doc = AccessType_WRITE then doc\<lparr>level := AccessType_READ\<rparr> else doc)"

definition upgrade :: "access_doc \<Rightarrow> access_doc" where
  "upgrade doc =
     (if level doc = AccessType_READ then doc\<lparr>level := AccessType_WRITE\<rparr> else doc)"

text \<open>The loops of \<^verbatim>\<open>_makeReadOnly\<close> and \<^verbatim>\<open>_makeWriteable\<close> visit every element of the
  users list and then of the groups list and rewrite its level in place.\<close>

definition makeReadOnly :: "folder \<Rightarrow> folder" where
  "makeReadOnly f = f\<lparr>users := map downgrade (users f), groups := map downgrade (groups f)\<rparr>"

definition makeWriteable :: "folder \<Rightarrow> folder" where
  "makeWriteable f = f\<lparr>users := map upgrade (users f), groups := map upgrade (groups f)\<rparr>"

text \<open>\<^verbatim>\<open>_addTimeline(oldCuration, curation, text)\<close>. The arguments of \<^verbatim>\<open>dict(...)\<close> are
  evaluated in order: the user's attributes, the four subscripts (each a \<^verbatim>\<open>KeyError\<close>
  when the key is missing), then the clock. \<^verbatim>\<open>setdefault(TIMELINE, [])\<close> starts the list
  when the key is missing.\<close>

definition addTimeline ::
  "user option \<Rightarrow> (nat \<Rightarrow> timestamp) \<Rightarrow> curation \<Rightarrow> string \<Rightarrow> state \<Rightarrow> exn + state" where
  "addTimeline usr clock oldCuration txt st =
     (case usr of None \<Rightarrow> Inl AttributeError | Some u \<Rightarrow>
      (case enabled oldCuration of None \<Rightarrow> Inl KeyError | Some oe \<Rightarrow>
      (case status oldCuration of None \<Rightarrow> Inl KeyError | Some os \<Rightarrow>
      (case enabled (st_curation st) of None \<Rightarrow> Inl KeyError | Some e \<Rightarrow>
      (case status (st_curation st) of None \<Rightarrow> Inl KeyError | Some s \<Rightarrow>
         Inr (st\<lparr>st_curation := (st_curation st)\<lparr>timeline :=
                    Some ((case timeline (st_curation st) of None \<Rightarrow> [] | Some t \<Rightarrow> t) @
                      [\<lparr>userId = user_id u, userLogin = login u, entry_text = txt,
                        oldEnabled = oe, oldStatus = os, newEnabled = e, newStatus = s,
                        timestamp = clock (st_ticks st)\<rparr>])\<rparr>,
                 st_ticks := Suc (st_ticks st)\<rparr>))))))"

text \<open>\<^verbatim>\<open>_getEmail(userId)\<close> is \<^verbatim>\<open>self.model('user').load(userId, force=True).get('email')\<close>.
  The user collection is the argument \<open>emails\<close>: \<open>emails i = None\<close> when the collection
  has no user with the id \<open>i\<close>, so that \<^verbatim>\<open>load\<close> returns \<^verbatim>\<open>None\<close> and \<^verbatim>\<open>.get\<close> is an
  attribute of \<^verbatim>\<open>None\<close>; \<open>Some a\<close> when the user is there, with the address \<open>a\<close>.\<close>

definition getEmail :: "(uid \<Rightarrow> string option) \<Rightarrow> uid \<Rightarrow> exn + string" where
  "getEmail emails i = (case emails i of None \<Rightarrow> Inl AttributeError | Some a \<Rightarrow> Inr a)"

text \<open>\<^verbatim>\<open>_sendMail(folder, userId, subject, template)\<close>: nothing is sent when \<^verbatim>\<open>userId\<close>
  is \<^verbatim>\<open>None\<close>; otherwise the address is looked up and the mail handed to \<^verbatim>\<open>sendEmail\<close>.
  Rendering the template and delivering the mail are girder's (\<^verbatim>\<open>mail_utils\<close>); the call
  of \<^verbatim>\<open>sendEmail\<close> is recorded.\<close>

definition sendMail ::
  "(uid \<Rightarrow> string option) \<Rightarrow> uid option \<Rightarrow> string \<Rightarrow> string \<Rightarrow> state \<Rightarrow> exn + state" where
  "sendMail emails rcpt subj tmpl st =
     (case rcpt of None \<Rightarrow> Inr st
      | Some r \<Rightarrow>
          bind_exn (getEmail emails r) (\<lambda>a.
            Inr (st\<lparr>st_mails := st_mails st @
                   [\<lparr>recipient = r, address = a, subject = subj, template = tmpl\<rparr>]\<rparr>)))"

text \<open>Lines 85 to 87.\<close>

definition update_enabled :: "user option \<Rightarrow> params \<Rightarrow> curation \<Rightarrow> exn + curation" where
  "update_enabled usr p c =
     (case p_enabled p of None \<Rightarrow> Inr c
      | Some b \<Rightarrow> bind_exn (requireAdmin usr) (\<lambda>_. Inr (c\<lparr>enabled := Some b\<rparr>)))"

text \<open>Lines 92 to 97.\<close>

definition update_status :: "user option \<Rightarrow> params \<Rightarrow> curation \<Rightarrow> exn + curation" where
  "update_status usr p c =
     (case p_status p of None \<Rightarrow> Inr c
      | Some s \<Rightarrow>
          bind_exn (if status c \<noteq> Some CONSTRUCTION \<or> s \<noteq> REQUESTED then requireAdmin usr
                    else Inr ())
            (\<lambda>_. Inr (c\<lparr>status := Some s\<rparr>)))"

text \<open>The bodies of the six \<^verbatim>\<open>if\<close> statements of lines 101 to 149.\<close>

definition enabling :: "user option \<Rightarrow> (nat \<Rightarrow> timestamp) \<Rightarrow> curation \<Rightarrow> state \<Rightarrow> exn + state" where
  "enabling usr clock oldCuration st =
     (let st = st\<lparr>st_folder := (st_folder st)\<lparr>public := False\<rparr>\<rparr> in
      bind_exn (get_id usr) (\<lambda>i.
        let st = st\<lparr>st_curation := (st_curation st)\<lparr>enableUserId := Some i\<rparr>\<rparr> in
        addTimeline usr clock oldCuration ''enabled curation'' st))"

definition disabling :: "user option \<Rightarrow> (nat \<Rightarrow> timestamp) \<Rightarrow> curation \<Rightarrow> state \<Rightarrow> exn + state" where
  "disabling usr clock oldCuration st =
     addTimeline usr clock oldCuration ''disabled curation'' st"

definition requesting ::
  "user option \<Rightarrow> (uid \<Rightarrow> string option) \<Rightarrow> (nat \<Rightarrow> timestamp) \<Rightarrow> curation \<Rightarrow> state
     \<Rightarrow> exn + state" where
  "requesting usr emails clock oldCuration st =
     bind_exn (get_id usr) (\<lambda>i.
       let st = st\<lparr>st_curation := (st_curation st)\<lparr>requestUserId := Some i\<rparr>\<rparr>;
           st = st\<lparr>st_folder := makeReadOnly (st_folder st)\<rparr> in
       bind_exn (addTimeline usr clock oldCuration ''requested approval'' st) (\<lambda>st.
         sendMail emails (enableUserId (st_curation st))
           (''REQUEST FOR APPROVAL: '' @ name (st_folder st))
           ''curation.requested.mako'' st))"

definition approving ::
  "user option \<Rightarrow> (uid \<Rightarrow> string option) \<Rightarrow> (nat \<Rightarrow> timestamp) \<Rightarrow> curation \<Rightarrow> state
     \<Rightarrow> exn + state" where
  "approving usr emails clock oldCuration st =
     (let st = st\<lparr>st_folder := (st_folder st)\<lparr>public := True\<rparr>\<rparr> in
      bind_exn (get_id usr) (\<lambda>i.
        let st = st\<lparr>st_curation := (st_curation st)\<lparr>reviewUserId := Some i\<rparr>\<rparr> in
        bind_exn (addTimeline usr clock oldCuration ''approved request'' st) (\<lambda>st.
          sendMail emails (requestUserId (st_curation st))
            (''APPROVED: '' @ name (st_folder st))
            ''curation.approved.mako'' st)))"

definition rejecting ::
  "user option \<Rightarrow> (uid \<Rightarrow> string option) \<Rightarrow> (nat \<Rightarrow> timestamp) \<Rightarrow> curation \<Rightarrow> state
     \<Rightarrow> exn + state" where
  "rejecting usr emails clock oldCuration st =
     bind_exn (get_id usr) (\<lambda>i.
       let st = st\<lparr>st_curation := (st_curation st)\<lparr>reviewUserId := Some i\<rparr>\<rparr>;
           st = st\<lparr>st_folder := makeWriteable (st_folder st)\<rparr> in
       bind_exn (addTimeline usr clock oldCuration ''rejected request'' st) (\<lambda>st.
         sendMail emails (requestUserId (st_curation st))
           (''REJECTED: '' @ name (st_folder st))
           ''curation.rejected.mako'' st))"

definition reopening :: "user option \<Rightarrow> (nat \<Rightarrow> timestamp) \<Rightarrow> curation \<Rightarrow> state \<Rightarrow> exn + state" where
  "reopening usr clock oldCuration st =
     (let st = st\<lparr>st_folder := (st_folder st)\<lparr>public := False\<rparr>\<rparr>;
          st = st\<lparr>st_folder := makeWriteable (st_folder st)\<rparr> in
      addTimeline usr clock oldCuration ''reopened folder'' st)"

text \<open>Lines 78 to 80: the dictionary under \<^verbatim>\<open>folder[CURATION]\<close>, a copy of \<^verbatim>\<open>DEFAULTS\<close> when
  the folder has none.\<close>

definition the_curation :: "folder \<Rightarrow> curation" where
  "the_curation f = (case curation f of None \<Rightarrow> DEFAULTS | Some c \<Rightarrow> c)"

text \<open>\<^verbatim>\<open>setCuration(self, folder, params)\<close>, with the current user, the user collection
  and the clock as arguments: \<open>clock k\<close> is what the \<open>k\<close>-th call of \<^verbatim>\<open>utcnow()\<close> in this
  request returns.
  An exception leaves the function before \<^verbatim>\<open>save\<close> on line 151, and the folder object
  of the request is dropped with it.\<close>

definition setCuration ::
  "folder \<Rightarrow> params \<Rightarrow> user option \<Rightarrow> (uid \<Rightarrow> string option) \<Rightarrow> (nat \<Rightarrow> timestamp)
     \<Rightarrow> exn + outcome" where
  "setCuration f p usr emails clock =
     (let c = the_curation f;
          oldCuration = c;
          oldEnabled = get_enabled c
      in bind_exn (update_enabled usr p c) (\<lambda>c.
         let enabled' = get_enabled c;
             oldStatus' = status c
         in bind_exn (update_status usr p c) (\<lambda>c.
         let status' = status c;
             st = \<lparr>st_folder = f, st_curation = c, st_mails = [], st_ticks = 0\<rparr>
         in
         bind_exn (when_exn (enabled' \<and> \<not> oldEnabled)
                     (enabling usr clock oldCuration) st) (\<lambda>st.
         bind_exn (when_exn (\<not> enabled' \<and> oldEnabled)
                     (disabling usr clock oldCuration) st) (\<lambda>st.
         bind_exn (when_exn (enabled' \<and> oldStatus' = Some CONSTRUCTION \<and> status' = Some REQUESTED)
                     (requesting usr emails clock oldCuration) st) (\<lambda>st.
         bind_exn (when_exn (enabled' \<and> oldStatus' = Some REQUESTED \<and> status' = Some APPROVED)
                     (approving usr emails clock oldCuration) st) (\<lambda>st.
         bind_exn (when_exn (enabled' \<and> oldStatus' = Some REQUESTED \<and> status' = Some CONSTRUCTION)
                     (rejecting usr emails clock oldCuration) st) (\<lambda>st.
         bind_exn (when_exn (enabled' \<and> oldStatus' = Some APPROVED \<and> status' = Some CONSTRUCTION)
                     (reopening usr clock oldCuration) st) (\<lambda>st.
         Inr \<lparr>saved = (st_folder st)\<lparr>curation := Some (st_curation st)\<rparr>,
              mails = st_mails st\<rparr>)))))))))"

section \<open>Notions used in the statements\<close>

text \<open>The test that \<^verbatim>\<open>requireAdmin\<close> makes.\<close>

definition is_admin :: "user option \<Rightarrow> bool" where
  "is_admin usr = (case usr of None \<Rightarrow> False | Some u \<Rightarrow> admin u)"

text \<open>The timeline of a curation dictionary, empty when the key is missing (what
  \<^verbatim>\<open>setdefault(TIMELINE, [])\<close> and the merge of \<^verbatim>\<open>getCuration\<close> both take it to be).\<close>

definition timeline_list :: "curation \<Rightarrow> entry list" where
  "timeline_list c = (case timeline c of None \<Rightarrow> [] | Some t \<Rightarrow> t)"

text \<open>The folder document in the store after a request on the stored document \<open>f\<close>:
  \<^verbatim>\<open>self.model('folder').save(folder)\<close> on line 151 is the only write, and an exception
  skips it.\<close>

definition stored_after :: "folder \<Rightarrow> exn + outcome \<Rightarrow> folder" where
  "stored_after f r = (case r of Inl e \<Rightarrow> f | Inr out \<Rightarrow> saved out)"

text \<open>The defaults as the specification of the read path gives them:
  \<^verbatim>\<open>{enabled:false, status:Construction, timeline:[]}\<close>, and the stored record merged over
  them key by key.\<close>

definition default_record :: curation where
  "default_record = \<lparr>enabled = Some False, status = Some CONSTRUCTION, timeline = Some [],
     enableUserId = None, requestUserId = None, reviewUserId = None\<rparr>"

definition merged_over_defaults :: "curation option \<Rightarrow> curation" where
  "merged_over_defaults stored =
     (case stored of None \<Rightarrow> default_record
      | Some c \<Rightarrow>
          \<lparr>enabled = Some (case enabled c of None \<Rightarrow> False | Some b \<Rightarrow> b),
           status = Some (case status c of None \<Rightarrow> CONSTRUCTION | Some s \<Rightarrow> s),
           timeline = Some (case timeline c of None \<Rightarrow> [] | Some t \<Rightarrow> t),
           enableUserId = enableUserId c,
           requestUserId = requestUserId c,
           reviewUserId = reviewUserId c\<rparr>)"

text \<open>The texts of the transitions that fire, in the order of the six \<^verbatim>\<open>if\<close> statements,
  for the values of \<^verbatim>\<open>oldEnabled\<close>, \<^verbatim>\<open>enabled\<close>, \<^verbatim>\<open>oldStatus\<close> and \<^verbatim>\<open>status\<close>
  (the conditions of lines 101, 109, 113, 124, 135 and 146).\<close>

definition fired :: "bool \<Rightarrow> bool \<Rightarrow> string option \<Rightarrow> string option \<Rightarrow> string list" where
  "fired oldEn en oldSt st =
     (if en \<and> \<not> oldEn then [''enabled curation''] else []) @
     (if \<not> en \<and> oldEn then [''disabled curation''] else []) @
     (if en \<and> oldSt = Some CONSTRUCTION \<and> st = Some REQUESTED
      then [''requested approval''] else []) @
     (if en \<and> oldSt = Some REQUESTED \<and> st = Some APPROVED
      then [''approved request''] else []) @
     (if en \<and> oldSt = Some REQUESTED \<and> st = Some CONSTRUCTION
      then [''rejected request''] else []) @
     (if en \<and> oldSt = Some APPROVED \<and> st = Some CONSTRUCTION
      then [''reopened folder''] else [])"

text \<open>A timeline entry that records the step from the dictionary \<open>oc\<close> to the dictionary
  \<open>c\<close>.\<close>

definition entry_ok :: "curation \<Rightarrow> curation \<Rightarrow> entry \<Rightarrow> bool" where
  "entry_ok oc c e \<longleftrightarrow>
     Some (oldEnabled e) = enabled oc \<and> Some (oldStatus e) = status oc \<and>
     Some (newEnabled e) = enabled c \<and> Some (newStatus e) = status c"

text \<open>From state \<open>st\<close> to state \<open>st'\<close> the timeline has grown at its end by entries with
  the texts \<open>txts\<close>, and the \<^verbatim>\<open>enabled\<close> and \<^verbatim>\<open>status\<close> keys are what they were.\<close>

definition grows :: "curation \<Rightarrow> string list \<Rightarrow> state \<Rightarrow> state \<Rightarrow> bool" where
  "grows oc txts st st' \<longleftrightarrow>
     enabled (st_curation st') = enabled (st_curation st) \<and>
     status (st_curation st') = status (st_curation st) \<and>
     (\<exists>new. timeline_list (st_curation st') = timeline_list (st_curation st) @ new \<and>
        map entry_text new = txts \<and> list_all (entry_ok oc (st_curation st)) new)"

text \<open>The four pairs of \<^verbatim>\<open>oldStatus\<close> and \<^verbatim>\<open>status\<close> that the conditions of lines 113, 124,
  135 and 146 test for.\<close>

definition graph_edge :: "string option \<Rightarrow> string option \<Rightarrow> bool" where
  "graph_edge oldSt st \<longleftrightarrow>
     oldSt = Some CONSTRUCTION \<and> st = Some REQUESTED \<or>
     oldSt = Some REQUESTED \<and> st = Some APPROVED \<or>
     oldSt = Some REQUESTED \<and> st = Some CONSTRUCTION \<or>
     oldSt = Some APPROVED \<and> st = Some CONSTRUCTION"

section \<open>Sample data\<close>

definition admin_user :: user where
  "admin_user = \<lparr>user_id = 1, login = ''admin'', admin = True\<rparr>"

definition plain_user :: user where
  "plain_user = \<lparr>user_id = 2, login = ''bob'', admin = False\<rparr>"

definition tick_clock :: "nat \<Rightarrow> timestamp" where
  "tick_clock k = 100 + k"

text \<open>A user collection that holds \<open>admin_user\<close> and \<open>plain_user\<close>, and the same
  collection after the account of \<open>admin_user\<close> has been deleted.\<close>

definition sample_emails :: "uid \<Rightarrow> string option" where
  "sample_emails i =
     (if i = 1 then Some ''admin@example.org''
      else if i = 2 then Some ''bob@example.org'' else None)"

definition emails_without_admin :: "uid \<Rightarrow> string option" where
  "emails_without_admin i = (if i = 2 then Some ''bob@example.org'' else None)"

definition sample_access :: "access_doc list" where
  "sample_access = [\<lparr>doc_id = 2, level = 1\<rparr>, \<lparr>doc_id = 3, level = 0\<rparr>, \<lparr>doc_id = 1, level = 2\<rparr>]"

text \<open>A folder that has no \<^verbatim>\<open>'curation'\<close> key yet.\<close>

definition fresh_folder :: folder where
  "fresh_folder = \<lparr>name = ''data'', public = True, users = sample_access,
     groups = [\<lparr>doc_id = 7, level = 1\<rparr>], curation = None\<rparr>"

text \<open>An entry written when \<open>admin_user\<close> enabled curation.\<close>

definition first_entry :: entry where
  "first_entry = \<lparr>userId = 1, userLogin = ''admin'', entry_text = ''enabled curation'',
     oldEnabled = False, oldStatus = ''construction'', newEnabled = True,
     newStatus = ''construction'', timestamp = 7\<rparr>"

text \<open>A folder under curation for which \<open>plain_user\<close> has asked for approval.\<close>

definition requested_curation :: curation where
  "requested_curation = \<lparr>enabled = Some True, status = Some ''requested'',
     timeline = Some [first_entry], enableUserId = Some 1, requestUserId = Some 2,
     reviewUserId = None\<rparr>"

definition requested_folder :: folder where
  "requested_folder = \<lparr>name = ''data'', public = False,
     users = [\<lparr>doc_id = 2, level = 0\<rparr>, \<lparr>doc_id = 3, level = 0\<rparr>, \<lparr>doc_id = 1, level = 2\<rparr>],
     groups = [\<lparr>doc_id = 7, level = 0\<rparr>], curation = Some requested_curation\<rparr>"

text \<open>The same request, with curation switched off.\<close>

definition paused_curation :: curation where
  "paused_curation = \<lparr>enabled = Some False, status = Some ''requested'',
     timeline = Some [first_entry], enableUserId = Some 1, requestUserId = Some 2,
     reviewUserId = None\<rparr>"

definition paused_folder :: folder where
  "paused_folder = \<lparr>name = ''data'', public = False, users = sample_access,
     groups = [], curation = Some paused_curation\<rparr>"

text \<open>An enabled folder under construction whose enabling user is \<open>admin_user\<close>.\<close>

definition open_curation :: curation where
  "open_curation = \<lparr>enabled = Some True, status = Some ''construction'',
     timeline = Some [first_entry], enableUserId = Some 1, requestUserId = None,
     reviewUserId = None\<rparr>"

definition open_folder :: folder where
  "open_folder = \<lparr>name = ''data'', public = False, users = sample_access,
     groups = [\<lparr>doc_id = 7, level = 1\<rparr>], curation = Some open_curation\<rparr>"

text \<open>What enabling curation on \<open>fresh_folder\<close> and asking for approval in the same call,
  by \<open>admin_user\<close> with the users \<open>sample_emails\<close> and the clock \<open>tick_clock\<close>, hands to
  \<^verbatim>\<open>save\<close> and sends.\<close>

definition enabled_and_requested :: outcome where
  "enabled_and_requested =
     \<lparr>saved = \<lparr>name = ''data'', public = False,
         users = [\<lparr>doc_id = 2, level = 0\<rparr>, \<lparr>doc_id = 3, level = 0\<rparr>, \<lparr>doc_id = 1, level = 2\<rparr>],
         groups = [\<lparr>doc_id = 7, level = 0\<rparr>],
         curation = Some \<lparr>enabled = Some True, status = Some ''requested'',
           timeline = Some
             [\<lparr>userId = 1, userLogin = ''admin'', entry_text = ''enabled curation'',
               oldEnabled = False, oldStatus = ''construction'', newEnabled = True,
               newStatus = ''requested'', timestamp = 100\<rparr>,
              \<lparr>userId = 1, userLogin = ''admin'', entry_text = ''requested approval'',
               oldEnabled = False, oldStatus = ''construction'', newEnabled = True,
               newStatus = ''requested'', timestamp = 101\<rparr>],
           enableUserId = Some 1, requestUserId = Some 1, reviewUserId = None\<rparr>\<rparr>,
      mails = [\<lparr>recipient = 1, address = ''admin@example.org'',
                subject = ''REQUEST FOR APPROVAL: data'',
                template = ''curation.requested.mako''\<rparr>]\<rparr>"

lemmas setCuration_defs =
  setCuration_def the_curation_def update_enabled_def update_status_def bind_exn_def
  when_exn_def requireAdmin_def get_id_def get_enabled_def enabling_def disabling_def
  requesting_def approving_def rejecting_def reopening_def addTimeline_def sendMail_def getEmail_def
  makeReadOnly_def makeWriteable_def Let_def

lemmas status_defs = CONSTRUCTION_def REQUESTED_def APPROVED_def

section \<open>The read path returns the record over the defaults\<close>

text \<open>
  Claim C9. For every folder, \<^verbatim>\<open>getCuration\<close> returns the stored curation record merged
  over the defaults \<^verbatim>\<open>{enabled: false, status: construction, timeline: []}\<close>; for a folder
  with no curation data it returns exactly the default record.
\<close>

theorem getCuration_merges_defaults:
  "getCuration f = merged_over_defaults (curation f) \<and>
   (curation f = None \<longrightarrow>
      getCuration f = \<lparr>enabled = Some False, status = Some CONSTRUCTION, timeline = Some [],
        enableUserId = None, requestUserId = None, reviewUserId = None\<rparr>)"
  by (auto simp add: getCuration_def merged_over_defaults_def default_record_def dict_update_def
      override_def DEFAULTS_def empty_dict_def Let_def split: option.splits)

theorem getCuration_merges_defaults_witness:
  "getCuration fresh_folder = \<lparr>enabled = Some False, status = Some ''construction'',
     timeline = Some [], enableUserId = None, requestUserId = None, reviewUserId = None\<rparr>"
  using getCuration_merges_defaults [of fresh_folder]
  by (simp add: fresh_folder_def CONSTRUCTION_def merged_over_defaults_def default_record_def)

section \<open>Only an administrator changes the enabled flag\<close>

text \<open>
  Claim C5. A call of \<^verbatim>\<open>setCuration\<close> with an \<^verbatim>\<open>enabled\<close> parameter by an actor who is
  not an administrator (or by nobody) fails with \<^verbatim>\<open>AccessException\<close>, whatever the value
  asked for, and nothing is saved: the stored folder, and with it the curation record
  that \<^verbatim>\<open>getCuration\<close> reports, is the one from before the call.
\<close>

theorem enabled_requires_admin:
  "\<not> is_admin usr \<Longrightarrow> p_enabled p = Some b \<Longrightarrow>
     setCuration f p usr emails clock = Inl AccessException \<and>
     stored_after f (setCuration f p usr emails clock) = f \<and>
     getCuration (stored_after f (setCuration f p usr emails clock)) = getCuration f"
  by (simp add: setCuration_def update_enabled_def bind_exn_def requireAdmin_def is_admin_def
      stored_after_def Let_def split: option.splits)

theorem enabled_requires_admin_witness:
  "\<not> is_admin (Some plain_user) \<and>
   setCuration fresh_folder \<lparr>p_enabled = Some True, p_status = None\<rparr> (Some plain_user) sample_emails tick_clock
     = Inl AccessException \<and>
   stored_after fresh_folder
     (setCuration fresh_folder \<lparr>p_enabled = Some True, p_status = None\<rparr> (Some plain_user) sample_emails tick_clock)
     = fresh_folder"
  using enabled_requires_admin [where usr = "Some plain_user"
      and p = "\<lparr>p_enabled = Some True, p_status = None\<rparr>" and b = True
      and f = fresh_folder and emails = sample_emails and clock = tick_clock]
  by (simp add: is_admin_def plain_user_def stored_after_def)

section \<open>Stepping through the exceptions\<close>

lemma bind_exn_Inr: "bind_exn r k = Inr y \<Longrightarrow> \<exists>x. r = Inr x \<and> k x = Inr y"
  by (cases r) (simp_all add: bind_exn_def)

lemma update_enabled_Inr:
  "update_enabled usr p c = Inr c' \<Longrightarrow> status c' = status c \<and> timeline c' = timeline c"
  by (auto simp add: update_enabled_def bind_exn_def split: option.splits sum.splits)

lemma update_status_Inr:
  "update_status usr p c = Inr c' \<Longrightarrow> enabled c' = enabled c \<and> timeline c' = timeline c"
  by (auto simp add: update_status_def bind_exn_def split: option.splits sum.splits if_splits)

section \<open>Every transition appends one entry\<close>

lemma addTimeline_Inr:
  "addTimeline usr clock oc txt st = Inr st' \<Longrightarrow>
     \<exists>u oe os e s. usr = Some u \<and> enabled oc = Some oe \<and> status oc = Some os \<and>
       enabled (st_curation st) = Some e \<and> status (st_curation st) = Some s \<and>
       st' = st\<lparr>st_curation := (st_curation st)\<lparr>timeline :=
                    Some (timeline_list (st_curation st) @
                      [\<lparr>userId = user_id u, userLogin = login u, entry_text = txt,
                        oldEnabled = oe, oldStatus = os, newEnabled = e, newStatus = s,
                        timestamp = clock (st_ticks st)\<rparr>])\<rparr>,
                 st_ticks := Suc (st_ticks st)\<rparr>"
  by (auto simp add: addTimeline_def timeline_list_def split: option.splits)

text \<open>The entry is appended to the state \<open>st\<close>; \<open>st0\<close> is an earlier state of the same
  branch that has the same three keys.\<close>

lemma addTimeline_grows:
  "addTimeline usr clock oc txt st = Inr st' \<Longrightarrow>
     enabled (st_curation st0) = enabled (st_curation st) \<Longrightarrow>
     status (st_curation st0) = status (st_curation st) \<Longrightarrow>
     timeline_list (st_curation st0) = timeline_list (st_curation st) \<Longrightarrow>
     grows oc [txt] st0 st'"
  by (drule addTimeline_Inr) (auto simp add: grows_def entry_ok_def timeline_list_def)

lemma grows_refl: "grows oc [] st st"
  by (simp add: grows_def)

lemma grows_trans: "grows oc t1 a b \<Longrightarrow> grows oc t2 b c \<Longrightarrow> grows oc (t1 @ t2) a c"
  by (auto simp add: grows_def entry_ok_def list_all_iff)

lemma sendMail_Inr:
  "sendMail emails r s t st = Inr st' \<Longrightarrow>
     st_curation st' = st_curation st \<and> st_folder st' = st_folder st"
  by (auto simp add: sendMail_def getEmail_def bind_exn_def split: option.splits)

lemma grows_sendMail:
  "sendMail emails r s tm b = Inr b' \<Longrightarrow> grows oc t a b \<Longrightarrow> grows oc t a b'"
  by (drule sendMail_Inr) (simp add: grows_def)

lemma enabling_grows:
  "enabling usr clock oc st = Inr st' \<Longrightarrow> grows oc [''enabled curation''] st st'"
  unfolding enabling_def Let_def
  by (auto simp add: timeline_list_def dest!: bind_exn_Inr elim!: addTimeline_grows)

lemma disabling_grows:
  "disabling usr clock oc st = Inr st' \<Longrightarrow> grows oc [''disabled curation''] st st'"
  unfolding disabling_def by (auto elim!: addTimeline_grows)

lemma requesting_grows:
  "requesting usr emails clock oc st = Inr st' \<Longrightarrow> grows oc [''requested approval''] st st'"
  unfolding requesting_def Let_def
  by (auto simp add: timeline_list_def dest!: bind_exn_Inr elim!: grows_sendMail
      addTimeline_grows)

lemma approving_grows:
  "approving usr emails clock oc st = Inr st' \<Longrightarrow> grows oc [''approved request''] st st'"
  unfolding approving_def Let_def
  by (auto simp add: timeline_list_def dest!: bind_exn_Inr elim!: grows_sendMail
      addTimeline_grows)

lemma rejecting_grows:
  "rejecting usr emails clock oc st = Inr st' \<Longrightarrow> grows oc [''rejected request''] st st'"
  unfolding rejecting_def Let_def
  by (auto simp add: timeline_list_def dest!: bind_exn_Inr elim!: grows_sendMail
      addTimeline_grows)

lemma reopening_grows:
  "reopening usr clock oc st = Inr st' \<Longrightarrow> grows oc [''reopened folder''] st st'"
  unfolding reopening_def Let_def
  by (auto elim!: addTimeline_grows)

lemma when_grows:
  "when_exn b body st = Inr st' \<Longrightarrow> (\<And>st'. body st = Inr st' \<Longrightarrow> grows oc [txt] st st') \<Longrightarrow>
     grows oc (if b then [txt] else []) st st'"
  by (auto simp add: when_exn_def grows_refl split: if_splits)

text \<open>The timeline after a call that returns: the one before it, then one entry for each
  transition that fired, each with the values of before and after the call.\<close>

lemma setCuration_timeline:
  assumes ok: "setCuration f p usr emails clock = Inr out"
  shows "\<exists>new. timeline_list (the_curation (saved out)) = timeline_list (the_curation f) @ new \<and>
           map entry_text new =
             fired (get_enabled (the_curation f)) (get_enabled (the_curation (saved out)))
               (status (the_curation f)) (status (the_curation (saved out))) \<and>
           list_all (entry_ok (the_curation f) (the_curation (saved out))) new"
proof -
  let ?oc = "the_curation f"
  from ok obtain c1 where c1: "update_enabled usr p ?oc = Inr c1"
    and r1: "(let enabled' = get_enabled c1; oldStatus' = status c1
         in bind_exn (update_status usr p c1) (\<lambda>c.
         let status' = status c;
             st = \<lparr>st_folder = f, st_curation = c, st_mails = [], st_ticks = 0\<rparr>
         in
         bind_exn (when_exn (enabled' \<and> \<not> get_enabled ?oc)
                     (enabling usr clock ?oc) st) (\<lambda>st.
         bind_exn (when_exn (\<not> enabled' \<and> get_enabled ?oc)
                     (disabling usr clock ?oc) st) (\<lambda>st.
         bind_exn (when_exn (enabled' \<and> oldStatus' = Some CONSTRUCTION \<and> status' = Some REQUESTED)
                     (requesting usr emails clock ?oc) st) (\<lambda>st.
         bind_exn (when_exn (enabled' \<and> oldStatus' = Some REQUESTED \<and> status' = Some APPROVED)
                     (approving usr emails clock ?oc) st) (\<lambda>st.
         bind_exn (when_exn (enabled' \<and> oldStatus' = Some REQUESTED \<and> status' = Some CONSTRUCTION)
                     (rejecting usr emails clock ?oc) st) (\<lambda>st.
         bind_exn (when_exn (enabled' \<and> oldStatus' = Some APPROVED \<and> status' = Some CONSTRUCTION)
                     (reopening usr clock ?oc) st) (\<lambda>st.
         Inr \<lparr>saved = (st_folder st)\<lparr>curation := Some (st_curation st)\<rparr>,
              mails = st_mails st\<rparr>)))))))) = Inr out"
    unfolding setCuration_def Let_def by (blast dest: bind_exn_Inr)
  let ?en = "get_enabled c1"
  let ?os = "status c1"
  from r1 obtain c2 where c2: "update_status usr p c1 = Inr c2"
    and r2: "(let st = \<lparr>st_folder = f, st_curation = c2, st_mails = [], st_ticks = 0\<rparr>
         in
         bind_exn (when_exn (?en \<and> \<not> get_enabled ?oc)
                     (enabling usr clock ?oc) st) (\<lambda>st.
         bind_exn (when_exn (\<not> ?en \<and> get_enabled ?oc)
                     (disabling usr clock ?oc) st) (\<lambda>st.
         bind_exn (when_exn (?en \<and> ?os = Some CONSTRUCTION \<and> status c2 = Some REQUESTED)
                     (requesting usr emails clock ?oc) st) (\<lambda>st.
         bind_exn (when_exn (?en \<and> ?os = Some REQUESTED \<and> status c2 = Some APPROVED)
                     (approving usr emails clock ?oc) st) (\<lambda>st.
         bind_exn (when_exn (?en \<and> ?os = Some REQUESTED \<and> status c2 = Some CONSTRUCTION)
                     (rejecting usr emails clock ?oc) st) (\<lambda>st.
         bind_exn (when_exn (?en \<and> ?os = Some APPROVED \<and> status c2 = Some CONSTRUCTION)
                     (reopening usr clock ?oc) st) (\<lambda>st.
         Inr \<lparr>saved = (st_folder st)\<lparr>curation := Some (st_curation st)\<rparr>,
              mails = st_mails st\<rparr>))))))) = Inr out"
    unfolding Let_def by (blast dest: bind_exn_Inr)
  let ?st0 = "\<lparr>st_folder = f, st_curation = c2, st_mails = [], st_ticks = 0\<rparr>"
  from r2 obtain st1 st2 st3 st4 st5 st6 where
    s1: "when_exn (?en \<and> \<not> get_enabled ?oc) (enabling usr clock ?oc) ?st0 = Inr st1" and
    s2: "when_exn (\<not> ?en \<and> get_enabled ?oc) (disabling usr clock ?oc) st1 = Inr st2" and
    s3: "when_exn (?en \<and> ?os = Some CONSTRUCTION \<and> status c2 = Some REQUESTED)
           (requesting usr emails clock ?oc) st2 = Inr st3" and
    s4: "when_exn (?en \<and> ?os = Some REQUESTED \<and> status c2 = Some APPROVED)
           (approving usr emails clock ?oc) st3 = Inr st4" and
    s5: "when_exn (?en \<and> ?os = Some REQUESTED \<and> status c2 = Some CONSTRUCTION)
           (rejecting usr emails clock ?oc) st4 = Inr st5" and
    s6: "when_exn (?en \<and> ?os = Some APPROVED \<and> status c2 = Some CONSTRUCTION)
           (reopening usr clock ?oc) st5 = Inr st6" and
    out: "out = \<lparr>saved = (st_folder st6)\<lparr>curation := Some (st_curation st6)\<rparr>,
              mails = st_mails st6\<rparr>"
    unfolding Let_def by (fastforce dest!: bind_exn_Inr)
  have g1: "grows ?oc (if ?en \<and> \<not> get_enabled ?oc then [''enabled curation''] else []) ?st0 st1"
    using s1 by (rule when_grows) (rule enabling_grows)
  have g2: "grows ?oc (if \<not> ?en \<and> get_enabled ?oc then [''disabled curation''] else []) st1 st2"
    using s2 by (rule when_grows) (rule disabling_grows)
  have g3: "grows ?oc (if ?en \<and> ?os = Some CONSTRUCTION \<and> status c2 = Some REQUESTED
      then [''requested approval''] else []) st2 st3"
    using s3 by (rule when_grows) (rule requesting_grows)
  have g4: "grows ?oc (if ?en \<and> ?os = Some REQUESTED \<and> status c2 = Some APPROVED
      then [''approved request''] else []) st3 st4"
    using s4 by (rule when_grows) (rule approving_grows)
  have g5: "grows ?oc (if ?en \<and> ?os = Some REQUESTED \<and> status c2 = Some CONSTRUCTION
      then [''rejected request''] else []) st4 st5"
    using s5 by (rule when_grows) (rule rejecting_grows)
  have g6: "grows ?oc (if ?en \<and> ?os = Some APPROVED \<and> status c2 = Some CONSTRUCTION
      then [''reopened folder''] else []) st5 st6"
    using s6 by (rule when_grows) (rule reopening_grows)
  have g: "grows ?oc (fired (get_enabled ?oc) ?en ?os (status c2)) ?st0 st6"
    unfolding fired_def
    by (rule grows_trans [OF g1 grows_trans [OF g2 grows_trans [OF g3
          grows_trans [OF g4 grows_trans [OF g5 g6]]]]])
  have e1: "status c1 = status ?oc" "timeline c1 = timeline ?oc"
    using update_enabled_Inr [OF c1] by simp_all
  have e2: "enabled c2 = enabled c1" "timeline c2 = timeline c1"
    using update_status_Inr [OF c2] by simp_all
  have fin: "the_curation (saved out) = st_curation st6"
    by (simp add: out the_curation_def)
  from g show ?thesis
    unfolding grows_def fin
    by (auto simp add: e1 e2 get_enabled_def timeline_list_def entry_ok_def list_all_iff)
qed

text \<open>
  Claim C6. For every call of \<^verbatim>\<open>setCuration\<close> that returns, the timeline afterwards is
  the timeline from before the call followed by exactly one new entry for each transition
  that fired (in the order enable, disable, request, approve, reject, reopen, with the
  text of that transition), and every new entry carries as \<^verbatim>\<open>oldEnabled\<close> and
  \<^verbatim>\<open>oldStatus\<close> the values of the record before the call and as \<^verbatim>\<open>enabled\<close> and
  \<^verbatim>\<open>status\<close> the values after it.
\<close>

theorem one_entry_per_transition:
  assumes "setCuration f p usr emails clock = Inr out"
  shows "\<exists>new. timeline_list (the_curation (saved out)) = timeline_list (the_curation f) @ new \<and>
           map entry_text new =
             fired (get_enabled (the_curation f)) (get_enabled (the_curation (saved out)))
               (status (the_curation f)) (status (the_curation (saved out))) \<and>
           list_all (entry_ok (the_curation f) (the_curation (saved out))) new"
  using assms by (rule setCuration_timeline)

theorem one_entry_per_transition_witness:
  "setCuration fresh_folder \<lparr>p_enabled = Some True, p_status = Some REQUESTED\<rparr>
      (Some admin_user) sample_emails tick_clock = Inr enabled_and_requested \<and>
   map entry_text (timeline_list (the_curation (saved enabled_and_requested))) =
     [''enabled curation'', ''requested approval''] \<and>
   list_all (entry_ok (the_curation fresh_folder) (the_curation (saved enabled_and_requested)))
     (timeline_list (the_curation (saved enabled_and_requested)))"
proof -
  have ev: "setCuration fresh_folder \<lparr>p_enabled = Some True, p_status = Some REQUESTED\<rparr>
      (Some admin_user) sample_emails tick_clock = Inr enabled_and_requested"
    by (simp add: setCuration_defs status_defs fresh_folder_def sample_access_def admin_user_def
        tick_clock_def sample_emails_def enabled_and_requested_def DEFAULTS_def
        downgrade_def AccessType_READ_def AccessType_WRITE_def)
  have "map entry_text (timeline_list (the_curation (saved enabled_and_requested))) =
      [''enabled curation'', ''requested approval''] \<and>
    list_all (entry_ok (the_curation fresh_folder) (the_curation (saved enabled_and_requested)))
      (timeline_list (the_curation (saved enabled_and_requested)))"
    using one_entry_per_transition [OF ev]
    by (simp add: the_curation_def fresh_folder_def DEFAULTS_def timeline_list_def
        enabled_and_requested_def fired_def get_enabled_def status_defs entry_ok_def)
  with ev show ?thesis by (rule conjI)
qed

section \<open>Which calls append to the timeline\<close>

text \<open>
  Claim C3, as the code has it. Whatever a call of \<^verbatim>\<open>setCuration\<close> does, the timeline
  stored afterwards is the timeline stored before with new entries at its end: no entry
  is edited or removed. A call that changes the enabled flag appends an entry, and so
  does a call that moves the status along one of the four transitions
  construction to requested, requested to approved, requested to construction and
  approved to construction while curation is enabled after the call. A call that finds
  curation disabled and leaves it disabled appends nothing, also when it changes the
  status.
\<close>

theorem timeline_entries_of_a_call:
  assumes "pre = the_curation f"
    and "post = the_curation (stored_after f (setCuration f p usr emails clock))"
  shows "\<exists>new. timeline_list post = timeline_list pre @ new \<and>
           (get_enabled post \<noteq> get_enabled pre \<longrightarrow> new \<noteq> []) \<and>
           (get_enabled post \<and> graph_edge (status pre) (status post) \<longrightarrow> new \<noteq> []) \<and>
           (\<not> get_enabled post \<and> \<not> get_enabled pre \<longrightarrow> new = [])"
proof (cases "setCuration f p usr emails clock")
  case (Inl e)
  then have "post = pre"
    by (simp add: assms stored_after_def)
  moreover have "\<not> graph_edge (status pre) (status pre)"
    by (auto simp add: graph_edge_def status_defs)
  ultimately show ?thesis by simp
next
  case (Inr out)
  then have post: "post = the_curation (saved out)"
    by (simp add: assms stored_after_def)
  from setCuration_timeline [OF Inr] obtain new where
    tl: "timeline_list post = timeline_list pre @ new" and
    texts: "map entry_text new =
      fired (get_enabled pre) (get_enabled post) (status pre) (status post)"
    unfolding post assms(1) by blast
  from texts have nil: "new = [] \<longleftrightarrow>
      fired (get_enabled pre) (get_enabled post) (status pre) (status post) = []"
    by (metis map_is_Nil_conv)
  have "get_enabled post \<noteq> get_enabled pre \<longrightarrow> new \<noteq> []"
    unfolding nil by (auto simp add: fired_def)
  moreover have "get_enabled post \<and> graph_edge (status pre) (status post) \<longrightarrow> new \<noteq> []"
    unfolding nil by (auto simp add: fired_def graph_edge_def)
  moreover have "\<not> get_enabled post \<and> \<not> get_enabled pre \<longrightarrow> new = []"
    unfolding nil by (simp add: fired_def)
  ultimately show ?thesis using tl by blast
qed

theorem timeline_entries_of_a_call_witness:
  "get_enabled (the_curation (stored_after open_folder
      (setCuration open_folder \<lparr>p_enabled = None, p_status = Some REQUESTED\<rparr>
         (Some plain_user) sample_emails tick_clock))) \<and>
   graph_edge (status (the_curation open_folder))
     (status (the_curation (stored_after open_folder
        (setCuration open_folder \<lparr>p_enabled = None, p_status = Some REQUESTED\<rparr>
           (Some plain_user) sample_emails tick_clock)))) \<and>
   timeline_list (the_curation (stored_after open_folder
      (setCuration open_folder \<lparr>p_enabled = None, p_status = Some REQUESTED\<rparr>
         (Some plain_user) sample_emails tick_clock))) \<noteq> timeline_list (the_curation open_folder)"
proof -
  let ?post = "the_curation (stored_after open_folder
      (setCuration open_folder \<lparr>p_enabled = None, p_status = Some REQUESTED\<rparr>
         (Some plain_user) sample_emails tick_clock))"
  have en: "get_enabled ?post"
    by (simp add: setCuration_defs status_defs stored_after_def open_folder_def
        open_curation_def plain_user_def sample_emails_def)
  have ed: "graph_edge (status (the_curation open_folder)) (status ?post)"
    by (simp add: setCuration_defs status_defs stored_after_def open_folder_def
        open_curation_def plain_user_def sample_emails_def graph_edge_def)
  from timeline_entries_of_a_call [OF refl refl, where f = open_folder
      and p = "\<lparr>p_enabled = None, p_status = Some REQUESTED\<rparr>" and usr = "Some plain_user"
      and emails = sample_emails and clock = tick_clock] en ed
  show ?thesis by auto
qed

text \<open>A call that changes the status of a record whose curation is disabled: the
  administrator approves the request of \<open>paused_folder\<close>. The call returns, the status
  stored is another one, and the timeline is the one from before.\<close>

theorem status_change_without_entry:
  "setCuration paused_folder \<lparr>p_enabled = None, p_status = Some APPROVED\<rparr>
      (Some admin_user) sample_emails tick_clock =
     Inr \<lparr>saved = paused_folder\<lparr>curation := Some (paused_curation\<lparr>status := Some APPROVED\<rparr>)\<rparr>,
          mails = []\<rparr> \<and>
   status paused_curation \<noteq> Some APPROVED \<and>
   timeline (paused_curation\<lparr>status := Some APPROVED\<rparr>) = timeline paused_curation"
  by (simp add: setCuration_defs status_defs paused_folder_def paused_curation_def
      admin_user_def)

section \<open>Who may change the status\<close>

text \<open>
  Claim C1, as the code has it. For a call of \<^verbatim>\<open>setCuration\<close> with a \<^verbatim>\<open>status\<close> parameter
  by an actor who is not an administrator: the call returns only if the current status
  is construction and the status asked for is requested (and there is no \<^verbatim>\<open>enabled\<close>
  parameter); every other such call fails with \<^verbatim>\<open>AccessException\<close>. Whether curation is
  enabled plays no part in the check: the request on a record under construction whose
  curation is not enabled returns, stores the status requested and does nothing else.
\<close>

theorem nonadmin_status_rule:
  assumes "\<not> is_admin usr" and "p_status p = Some s"
  shows "((\<exists>out. setCuration f p usr emails clock = Inr out) \<longrightarrow>
            p_enabled p = None \<and> status (the_curation f) = Some CONSTRUCTION \<and> s = REQUESTED) \<and>
         (\<not> (p_enabled p = None \<and> status (the_curation f) = Some CONSTRUCTION \<and> s = REQUESTED) \<longrightarrow>
            setCuration f p usr emails clock = Inl AccessException) \<and>
         (p_enabled p = None \<and> status (the_curation f) = Some CONSTRUCTION \<and> s = REQUESTED \<and>
            \<not> get_enabled (the_curation f) \<longrightarrow>
            setCuration f p usr emails clock =
              Inr \<lparr>saved = f\<lparr>curation := Some ((the_curation f)\<lparr>status := Some REQUESTED\<rparr>)\<rparr>,
                   mails = []\<rparr>)"
proof -
  have denied: "setCuration f p usr emails clock = Inl AccessException"
    if "\<not> (p_enabled p = None \<and> status (the_curation f) = Some CONSTRUCTION \<and> s = REQUESTED)"
    using that assms
    by (auto simp add: setCuration_def update_enabled_def update_status_def bind_exn_def
        requireAdmin_def is_admin_def Let_def split: option.splits)
  have stores: "setCuration f p usr emails clock =
      Inr \<lparr>saved = f\<lparr>curation := Some ((the_curation f)\<lparr>status := Some REQUESTED\<rparr>)\<rparr>,
           mails = []\<rparr>"
    if "p_enabled p = None" "status (the_curation f) = Some CONSTRUCTION" "s = REQUESTED"
       "\<not> get_enabled (the_curation f)"
    using that assms(2)
    by (simp add: setCuration_def update_enabled_def update_status_def bind_exn_def
        when_exn_def Let_def)
  have only: "p_enabled p = None \<and> status (the_curation f) = Some CONSTRUCTION \<and> s = REQUESTED"
    if "setCuration f p usr emails clock = Inr out" for out
  proof (rule ccontr)
    assume "\<not> (p_enabled p = None \<and> status (the_curation f) = Some CONSTRUCTION \<and> s = REQUESTED)"
    from denied [OF this] that show False by simp
  qed
  from only denied stores show ?thesis by blast
qed

theorem nonadmin_status_rule_witness:
  "\<not> is_admin (Some plain_user) \<and>
   setCuration requested_folder \<lparr>p_enabled = None, p_status = Some APPROVED\<rparr>
     (Some plain_user) sample_emails tick_clock = Inl AccessException"
  using nonadmin_status_rule [where usr = "Some plain_user"
      and p = "\<lparr>p_enabled = None, p_status = Some APPROVED\<rparr>" and s = APPROVED
      and f = requested_folder and emails = sample_emails and clock = tick_clock]
  by (simp add: is_admin_def plain_user_def status_defs)

text \<open>A user who is not an administrator asks for approval of a folder whose curation
  is not enabled: the call returns and the status requested is stored.\<close>

theorem nonadmin_request_while_disabled:
  "\<not> admin plain_user \<and> enabled (the_curation fresh_folder) = Some False \<and>
   setCuration fresh_folder \<lparr>p_enabled = None, p_status = Some REQUESTED\<rparr>
     (Some plain_user) sample_emails tick_clock =
     Inr \<lparr>saved = fresh_folder\<lparr>curation := Some (DEFAULTS\<lparr>status := Some REQUESTED\<rparr>)\<rparr>,
          mails = []\<rparr>"
  by (simp add: setCuration_defs status_defs fresh_folder_def plain_user_def DEFAULTS_def)

section \<open>A status outside the three states\<close>

text \<open>
  Claim C2, as the code has it. The value of the \<^verbatim>\<open>status\<close> parameter is not validated.
  When it is none of construction, requested and approved, a call by an actor who is
  not an administrator fails with \<^verbatim>\<open>AccessException\<close> before anything is done; a call
  by an administrator that carries no \<^verbatim>\<open>enabled\<close> parameter returns, stores the value
  as the status, and does nothing else: no timeline entry, no change of the access
  lists or of the public flag, no mail.
\<close>

theorem unknown_status_value:
  assumes "p_status p = Some s"
    and "s \<noteq> CONSTRUCTION" and "s \<noteq> REQUESTED" and "s \<noteq> APPROVED"
  shows "(\<not> is_admin usr \<longrightarrow> setCuration f p usr emails clock = Inl AccessException) \<and>
         (is_admin usr \<and> p_enabled p = None \<longrightarrow>
            setCuration f p usr emails clock =
              Inr \<lparr>saved = f\<lparr>curation := Some ((the_curation f)\<lparr>status := Some s\<rparr>)\<rparr>,
                   mails = []\<rparr>)"
  using assms
  by (cases usr)
    (auto simp add: setCuration_def update_enabled_def update_status_def bind_exn_def
      when_exn_def requireAdmin_def is_admin_def Let_def split: option.splits)

theorem unknown_status_value_witness:
  "''published'' \<noteq> CONSTRUCTION \<and> ''published'' \<noteq> REQUESTED \<and> ''published'' \<noteq> APPROVED \<and>
   \<not> is_admin (Some plain_user) \<and>
   setCuration open_folder \<lparr>p_enabled = None, p_status = Some ''published''\<rparr>
     (Some plain_user) sample_emails tick_clock = Inl AccessException"
  using unknown_status_value [where p = "\<lparr>p_enabled = None, p_status = Some ''published''\<rparr>"
      and s = "''published''" and usr = "Some plain_user" and f = open_folder
      and emails = sample_emails and clock = tick_clock]
  by (simp add: is_admin_def plain_user_def status_defs)

text \<open>An administrator sets the status of a folder to a value that is none of the
  three states: the call returns and the value is stored.\<close>

theorem unknown_status_is_stored:
  "''published'' \<noteq> CONSTRUCTION \<and> ''published'' \<noteq> REQUESTED \<and> ''published'' \<noteq> APPROVED \<and>
   setCuration fresh_folder \<lparr>p_enabled = None, p_status = Some ''published''\<rparr>
     (Some admin_user) sample_emails tick_clock =
     Inr \<lparr>saved = fresh_folder\<lparr>curation := Some (DEFAULTS\<lparr>status := Some ''published''\<rparr>)\<rparr>,
          mails = []\<rparr>"
  by (simp add: setCuration_defs status_defs fresh_folder_def admin_user_def DEFAULTS_def)

section \<open>Requesting approval\<close>

text \<open>What a request for approval does on a record with \<^verbatim>\<open>enabled\<close> true and status
  construction, by a logged-in actor and with no \<^verbatim>\<open>enabled\<close> parameter. When the record
  has no \<^verbatim>\<open>enableUserId\<close>, or the enabling user is in the user collection, the call
  returns: \<^verbatim>\<open>requestUserId\<close> is the actor, every entry at write level is at read level,
  the timeline has one more entry and, in the second case, one mail has gone to the
  enabling user. When the enabling user is not in the collection the call raises
  \<^verbatim>\<open>AttributeError\<close>.\<close>

lemma request_closed:
  assumes "curation f = Some c" and "enabled c = Some True" and "status c = Some CONSTRUCTION"
  shows "setCuration f \<lparr>p_enabled = None, p_status = Some REQUESTED\<rparr> (Some u) emails clock =
     (case enableUserId c of
        None \<Rightarrow>
          Inr \<lparr>saved = f\<lparr>users := map downgrade (users f), groups := map downgrade (groups f),
                 curation := Some (c\<lparr>status := Some REQUESTED,
                   requestUserId := Some (user_id u),
                   timeline := Some (timeline_list c @
                     [\<lparr>userId = user_id u, userLogin = login u,
                       entry_text = ''requested approval'',
                       oldEnabled = True, oldStatus = CONSTRUCTION, newEnabled = True,
                       newStatus = REQUESTED, timestamp = clock 0\<rparr>])\<rparr>)\<rparr>,
               mails = []\<rparr>
      | Some a \<Rightarrow>
          (case emails a of
             None \<Rightarrow> Inl AttributeError
           | Some addr \<Rightarrow>
               Inr \<lparr>saved = f\<lparr>users := map downgrade (users f),
                      groups := map downgrade (groups f),
                      curation := Some (c\<lparr>status := Some REQUESTED,
                        requestUserId := Some (user_id u),
                        timeline := Some (timeline_list c @
                          [\<lparr>userId = user_id u, userLogin = login u,
                            entry_text = ''requested approval'',
                            oldEnabled = True, oldStatus = CONSTRUCTION, newEnabled = True,
                            newStatus = REQUESTED, timestamp = clock 0\<rparr>])\<rparr>)\<rparr>,
                    mails = [\<lparr>recipient = a, address = addr,
                              subject = ''REQUEST FOR APPROVAL: '' @ name f,
                              template = ''curation.requested.mako''\<rparr>]\<rparr>))"
  using assms
  by (simp add: setCuration_defs status_defs timeline_list_def split: option.splits)

text \<open>
  Claim C4 says that for every record with \<^verbatim>\<open>enabled\<close> true and status construction a call
  that asks for the status requested sets \<^verbatim>\<open>requestUserId\<close> to the actor, turns every
  access entry at write level to read level, appends one timeline entry with the text
  \<^verbatim>\<open>requested approval\<close> and sends one notification to the record's \<^verbatim>\<open>enableUserId\<close>.
  The call below is such a call: \<open>open_folder\<close> is enabled and under construction, it was
  enabled by the user with the id 1, and \<open>plain_user\<close> asks for approval. The account of
  the enabling user has been deleted since. \<^verbatim>\<open>_getEmail\<close> then raises \<^verbatim>\<open>AttributeError\<close>
  (line 178, called on line 188), which leaves \<^verbatim>\<open>setCuration\<close> before \<^verbatim>\<open>save\<close> on line
  151: no mail is sent and the folder in the store is the one from before the call, with
  the status construction, no \<^verbatim>\<open>requestUserId\<close> and the access entries at write level.
\<close>

theorem request_lost_when_enabler_is_gone:
  "curation open_folder = Some open_curation \<and>
   enabled open_curation = Some True \<and> status open_curation = Some CONSTRUCTION \<and>
   enableUserId open_curation = Some 1 \<and> emails_without_admin 1 = None \<and>
   setCuration open_folder \<lparr>p_enabled = None, p_status = Some REQUESTED\<rparr>
     (Some plain_user) emails_without_admin tick_clock = Inl AttributeError \<and>
   stored_after open_folder
     (setCuration open_folder \<lparr>p_enabled = None, p_status = Some REQUESTED\<rparr>
        (Some plain_user) emails_without_admin tick_clock) = open_folder"
proof -
  have h: "curation open_folder = Some open_curation"
    "enabled open_curation = Some True" "status open_curation = Some CONSTRUCTION"
    "enableUserId open_curation = Some 1" "emails_without_admin 1 = None"
    by (simp_all add: open_folder_def open_curation_def status_defs emails_without_admin_def)
  have "setCuration open_folder \<lparr>p_enabled = None, p_status = Some REQUESTED\<rparr>
     (Some plain_user) emails_without_admin tick_clock = Inl AttributeError"
    using request_closed [OF h(1) h(2) h(3), of plain_user emails_without_admin tick_clock]
    by (simp add: h(4) emails_without_admin_def)
  with h show ?thesis by (simp add: stored_after_def)
qed

section \<open>Approving, reopening and the access lists\<close>






section \<open>Submitting the status that is already stored\<close>

lemma status_update_same: "status c = Some s \<Longrightarrow> c\<lparr>status := Some s\<rparr> = c"
  by (cases c) simp

lemma update_status_same:
  "is_admin usr \<Longrightarrow> status c = Some s \<Longrightarrow>
     update_status usr \<lparr>p_enabled = e, p_status = Some s\<rparr> c = Inr c"
  by (cases usr)
    (simp_all add: update_status_def bind_exn_def requireAdmin_def is_admin_def
      status_update_same)

text \<open>
  Claim C8. When the record already holds the status that a call of \<^verbatim>\<open>setCuration\<close> asks
  for, the \<^verbatim>\<open>status\<close> parameter does nothing, whatever the \<^verbatim>\<open>enabled\<close> parameter of the
  call is. The call needs an administrator: made by anyone else it fails with
  \<^verbatim>\<open>AccessException\<close> and nothing is saved. Made by an administrator it is the call
  without the \<^verbatim>\<open>status\<close> parameter: the same exception or the same folder saved and the
  same mails sent. And when the \<^verbatim>\<open>enabled\<close> parameter is missing or is the stored flag
  too, which is what submitting a call a second time comes to, the call returns, the
  folder handed to \<^verbatim>\<open>save\<close> is the one that was loaded (with the curation dictionary
  written in when the folder had none, and the \<^verbatim>\<open>enabled\<close> key when it was missing):
  no new timeline entry, the access lists and the public flag unchanged, no mail.
\<close>

theorem same_status_again:
  assumes "status (the_curation f) = Some s"
  shows "(\<not> is_admin usr \<longrightarrow>
            setCuration f \<lparr>p_enabled = e, p_status = Some s\<rparr> usr emails clock
              = Inl AccessException) \<and>
         (is_admin usr \<longrightarrow>
            setCuration f \<lparr>p_enabled = e, p_status = Some s\<rparr> usr emails clock
              = setCuration f \<lparr>p_enabled = e, p_status = None\<rparr> usr emails clock) \<and>
         (is_admin usr \<and> (e = None \<or> e = Some (get_enabled (the_curation f))) \<longrightarrow>
            setCuration f \<lparr>p_enabled = e, p_status = Some s\<rparr> usr emails clock
              = Inr \<lparr>saved = f\<lparr>curation := Some ((the_curation f)\<lparr>enabled :=
                        (case e of None \<Rightarrow> enabled (the_curation f) | Some b \<Rightarrow> Some b)\<rparr>)\<rparr>,
                     mails = []\<rparr>)"
proof -
  have denied: "setCuration f \<lparr>p_enabled = e, p_status = Some s\<rparr> usr emails clock
      = Inl AccessException" if "\<not> is_admin usr"
    using that assms
    by (cases usr; cases e)
      (auto simp add: setCuration_def update_enabled_def update_status_def bind_exn_def
        requireAdmin_def is_admin_def Let_def status_defs)
  have same: "setCuration f \<lparr>p_enabled = e, p_status = Some s\<rparr> usr emails clock
      = setCuration f \<lparr>p_enabled = e, p_status = None\<rparr> usr emails clock" if adm: "is_admin usr"
  proof (cases "update_enabled usr \<lparr>p_enabled = e, p_status = None\<rparr> (the_curation f)")
    case (Inl x)
    then have "update_enabled usr \<lparr>p_enabled = e, p_status = Some s\<rparr> (the_curation f) = Inl x"
      by (simp add: update_enabled_def)
    with Inl show ?thesis
      by (simp add: setCuration_def bind_exn_def)
  next
    case (Inr c1)
    then have u: "update_enabled usr \<lparr>p_enabled = e, p_status = Some s\<rparr> (the_curation f) = Inr c1"
      by (simp add: update_enabled_def)
    from update_enabled_Inr [OF Inr] assms have st: "status c1 = Some s"
      by simp
    have "update_status usr \<lparr>p_enabled = e, p_status = Some s\<rparr> c1 = Inr c1"
      using adm st by (rule update_status_same)
    moreover have "update_status usr \<lparr>p_enabled = e, p_status = None\<rparr> c1 = Inr c1"
      by (simp add: update_status_def)
    ultimately show ?thesis
      using Inr u by (simp add: setCuration_def bind_exn_def Let_def)
  qed
  have noop: "setCuration f \<lparr>p_enabled = e, p_status = Some s\<rparr> usr emails clock
      = Inr \<lparr>saved = f\<lparr>curation := Some ((the_curation f)\<lparr>enabled :=
                (case e of None \<Rightarrow> enabled (the_curation f) | Some b \<Rightarrow> Some b)\<rparr>)\<rparr>,
             mails = []\<rparr>"
    if "is_admin usr" "e = None \<or> e = Some (get_enabled (the_curation f))"
    using that assms
    by (cases usr; cases e)
      (auto simp add: setCuration_def update_enabled_def update_status_def bind_exn_def
        when_exn_def requireAdmin_def is_admin_def get_enabled_def Let_def status_defs
        status_update_same)
  from denied same noop show ?thesis by blast
qed

theorem same_status_again_witness:
  "status (the_curation requested_folder) = Some REQUESTED \<and> is_admin (Some admin_user) \<and>
   Some True = Some (get_enabled (the_curation requested_folder)) \<and>
   setCuration requested_folder \<lparr>p_enabled = Some True, p_status = Some REQUESTED\<rparr>
     (Some admin_user) sample_emails tick_clock = Inr \<lparr>saved = requested_folder, mails = []\<rparr>"
proof -
  have h: "status (the_curation requested_folder) = Some REQUESTED"
    "is_admin (Some admin_user)"
    "Some True = Some (get_enabled (the_curation requested_folder))"
    by (simp_all add: the_curation_def requested_folder_def requested_curation_def status_defs
        is_admin_def admin_user_def get_enabled_def)
  have same: "requested_folder\<lparr>curation := Some ((the_curation requested_folder)\<lparr>enabled :=
      Some True\<rparr>)\<rparr> = requested_folder"
    by (simp add: the_curation_def requested_folder_def requested_curation_def)
  note t = same_status_again [OF h(1), where usr = "Some admin_user" and e = "Some True"
      and emails = sample_emails and clock = tick_clock]
  from t h(2) h(3)
  have "setCuration requested_folder \<lparr>p_enabled = Some True, p_status = Some REQUESTED\<rparr>
     (Some admin_user) sample_emails tick_clock =
     Inr \<lparr>saved = requested_folder\<lparr>curation := Some ((the_curation requested_folder)\<lparr>enabled :=
        (case Some True of None \<Rightarrow> enabled (the_curation requested_folder)
         | Some b \<Rightarrow> Some b)\<rparr>)\<rparr>, mails = []\<rparr>"
    by blast
  then have "setCuration requested_folder \<lparr>p_enabled = Some True, p_status = Some REQUESTED\<rparr>
     (Some admin_user) sample_emails tick_clock = Inr \<lparr>saved = requested_folder, mails = []\<rparr>"
    by (simp add: same)
  with h show ?thesis by (intro conjI)
qed

section \<open>Disabling curation\<close>

lemma enable_closed:
  assumes "admin u" and "curation f = Some c" and "enabled c = Some False"
    and "status c = Some s"
  shows "setCuration f \<lparr>p_enabled = Some True, p_status = None\<rparr> (Some u) emails clock =
     Inr \<lparr>saved = f\<lparr>public := False, curation := Some (c\<lparr>enabled := Some True,
                 enableUserId := Some (user_id u),
                 timeline := Some (timeline_list c @
                   [\<lparr>userId = user_id u, userLogin = login u, entry_text = ''enabled curation'',
                     oldEnabled = False, oldStatus = s, newEnabled = True,
                     newStatus = s, timestamp = clock 0\<rparr>])\<rparr>)\<rparr>,
          mails = []\<rparr>"
  using assms
  by (auto simp add: setCuration_defs status_defs timeline_list_def split: option.splits)

text \<open>
  Claim C10. Disabling curation (a call by an administrator with \<^verbatim>\<open>enabled\<close> false and no
  \<^verbatim>\<open>status\<close> parameter on a record with \<^verbatim>\<open>enabled\<close> true) returns and saves the folder as it
  was, but for two keys of the curation dictionary: \<^verbatim>\<open>enabled\<close> is false and the timeline
  has one more entry, with the text \<^verbatim>\<open>disabled curation\<close>. The status,
  \<^verbatim>\<open>requestUserId\<close>, \<^verbatim>\<open>reviewUserId\<close>, the public flag and the access lists are
  unchanged and no mail is sent. Enabling curation again afterwards returns too, and
  the record still has the status and the \<^verbatim>\<open>requestUserId\<close> from before the disabling.
\<close>

theorem disable_keeps_request:
  assumes "admin u" and "admin u2" and "curation f = Some c" and "enabled c = Some True"
    and "status c = Some s"
  shows "\<exists>out out2.
           setCuration f \<lparr>p_enabled = Some False, p_status = None\<rparr> (Some u) emails clock = Inr out \<and>
           saved out = f\<lparr>curation := Some (c\<lparr>enabled := Some False,
                 timeline := Some (timeline_list c @
                   [\<lparr>userId = user_id u, userLogin = login u, entry_text = ''disabled curation'',
                     oldEnabled = True, oldStatus = s, newEnabled = False,
                     newStatus = s, timestamp = clock 0\<rparr>])\<rparr>)\<rparr> \<and>
           mails out = [] \<and>
           setCuration (saved out) \<lparr>p_enabled = Some True, p_status = None\<rparr> (Some u2) emails_b clock_b
             = Inr out2 \<and>
           enabled (the_curation (saved out2)) = Some True \<and>
           status (the_curation (saved out2)) = Some s \<and>
           requestUserId (the_curation (saved out2)) = requestUserId c"
proof -
  let ?c1 = "c\<lparr>enabled := Some False,
                 timeline := Some (timeline_list c @
                   [\<lparr>userId = user_id u, userLogin = login u, entry_text = ''disabled curation'',
                     oldEnabled = True, oldStatus = s, newEnabled = False,
                     newStatus = s, timestamp = clock 0\<rparr>])\<rparr>"
  let ?f1 = "f\<lparr>curation := Some ?c1\<rparr>"
  have d: "setCuration f \<lparr>p_enabled = Some False, p_status = None\<rparr> (Some u) emails clock =
      Inr \<lparr>saved = ?f1, mails = []\<rparr>"
    using assms
    by (simp add: setCuration_defs status_defs timeline_list_def split: option.splits)
  have "setCuration ?f1 \<lparr>p_enabled = Some True, p_status = None\<rparr> (Some u2) emails_b clock_b =
     Inr \<lparr>saved = ?f1\<lparr>public := False, curation := Some (?c1\<lparr>enabled := Some True,
                 enableUserId := Some (user_id u2),
                 timeline := Some (timeline_list ?c1 @
                   [\<lparr>userId = user_id u2, userLogin = login u2, entry_text = ''enabled curation'',
                     oldEnabled = False, oldStatus = s, newEnabled = True,
                     newStatus = s, timestamp = clock_b 0\<rparr>])\<rparr>)\<rparr>,
          mails = []\<rparr>"
    by (rule enable_closed) (simp_all add: assms)
  then obtain out2 where
    "setCuration ?f1 \<lparr>p_enabled = Some True, p_status = None\<rparr> (Some u2) emails_b clock_b = Inr out2"
    "enabled (the_curation (saved out2)) = Some True"
    "status (the_curation (saved out2)) = Some s"
    "requestUserId (the_curation (saved out2)) = requestUserId c"
    by (simp add: the_curation_def assms)
  with d show ?thesis by simp
qed

theorem disable_keeps_request_witness:
  "admin admin_user \<and> curation requested_folder = Some requested_curation \<and>
   enabled requested_curation = Some True \<and> status requested_curation = Some REQUESTED \<and>
   (\<exists>out out2.
      setCuration requested_folder \<lparr>p_enabled = Some False, p_status = None\<rparr>
        (Some admin_user) sample_emails tick_clock = Inr out \<and>
      status (the_curation (saved out)) = Some REQUESTED \<and>
      requestUserId (the_curation (saved out)) = Some 2 \<and>
      public (saved out) = public requested_folder \<and>
      users (saved out) = users requested_folder \<and>
      groups (saved out) = groups requested_folder \<and>
      mails out = [] \<and>
      setCuration (saved out) \<lparr>p_enabled = Some True, p_status = None\<rparr>
        (Some admin_user) sample_emails tick_clock = Inr out2 \<and>
      status (the_curation (saved out2)) = Some REQUESTED \<and>
      requestUserId (the_curation (saved out2)) = Some 2)"
proof -
  have h: "admin admin_user" "curation requested_folder = Some requested_curation"
    "enabled requested_curation = Some True" "status requested_curation = Some REQUESTED"
    by (simp_all add: admin_user_def requested_folder_def requested_curation_def status_defs)
  have r: "requestUserId requested_curation = Some 2"
    by (simp add: requested_curation_def)
  from disable_keeps_request [OF h(1) h(1) h(2) h(3) h(4), where emails = sample_emails
      and emails_b = sample_emails and clock = tick_clock and clock_b = tick_clock]
  obtain out out2 where
    "setCuration requested_folder \<lparr>p_enabled = Some False, p_status = None\<rparr>
        (Some admin_user) sample_emails tick_clock = Inr out"
    "saved out = requested_folder\<lparr>curation := Some (requested_curation\<lparr>enabled := Some False,
                 timeline := Some (timeline_list requested_curation @
                   [\<lparr>userId = user_id admin_user, userLogin = login admin_user,
                     entry_text = ''disabled curation'',
                     oldEnabled = True, oldStatus = REQUESTED, newEnabled = False,
                     newStatus = REQUESTED, timestamp = tick_clock 0\<rparr>])\<rparr>)\<rparr>"
    "mails out = []"
    "setCuration (saved out) \<lparr>p_enabled = Some True, p_status = None\<rparr>
        (Some admin_user) sample_emails tick_clock = Inr out2"
    "status (the_curation (saved out2)) = Some REQUESTED"
    "requestUserId (the_curation (saved out2)) = requestUserId requested_curation"
    by blast
  then show ?thesis
    using h r by (auto simp add: the_curation_def)
qed

end
